theory Spec2Isabelle
  imports Complex_Main "HOL-Library.Product_Lexorder"
begin

section \<open>Python values\<close>

text \<open>
  The program (\<^verbatim>\<open>app.py\<close>) handles dynamically typed values: the body of an HTTP
  response parsed by \<^verbatim>\<open>response.json()\<close> and the dictionaries it builds from it.
  A finite float is represented by the rational number it denotes; the parser of Python's
  \<^verbatim>\<open>json\<close> module also accepts \<^verbatim>\<open>NaN\<close> and the two infinities.
\<close>

datatype pyfloat = Finite rat | PosInf | NegInf | NaN

datatype json =
    JNull
  | JBool bool
  | JInt int
  | JFloat pyfloat
  | JStr string
  | JArr "json list"
  | JObj "(string \<times> json) list"

type_synonym dict = "(string \<times> json) list"

text \<open>
  The exceptions of the program. \<^verbatim>\<open>requests.exceptions.RequestException\<close> is the
  base class of everything the transport raises; \<^verbatim>\<open>raise_for_status\<close> raises its
  subclass \<^verbatim>\<open>HTTPError\<close> and \<^verbatim>\<open>response.json()\<close> its subclass
  \<^verbatim>\<open>JSONDecodeError\<close>.
\<close>

datatype request_exception =
    Timeout
  | ConnectionError
  | RetryError
  | TooManyRedirects
  | HTTPError nat
  | JSONDecodeError

datatype exn =
    RequestException request_exception
  | TypeError
  | AttributeError
  | IndexError

text \<open>Truth value testing (\<^verbatim>\<open>if poster_path\<close>).\<close>

fun truthy :: "json \<Rightarrow> bool" where
  "truthy JNull = False"
| "truthy (JBool b) = b"
| "truthy (JInt n) = (n \<noteq> 0)"
| "truthy (JFloat f) = (f \<noteq> Finite 0)"
| "truthy (JStr s) = (s \<noteq> [])"
| "truthy (JArr xs) = (xs \<noteq> [])"
| "truthy (JObj d) = (d \<noteq> [])"

text \<open>\<^verbatim>\<open>d.get(k, default)\<close>: the default is used only when the key is missing.\<close>

definition dict_get :: "dict \<Rightarrow> string \<Rightarrow> json \<Rightarrow> json" where
  "dict_get d k dflt = (case map_of d k of None \<Rightarrow> dflt | Some v \<Rightarrow> v)"

text \<open>
  \<^verbatim>\<open>round(x, 1)\<close>. An \<^verbatim>\<open>int\<close> (and a \<^verbatim>\<open>bool\<close>, its subclass) is returned
  as an \<^verbatim>\<open>int\<close> unchanged; a float is rounded to the nearest multiple of one tenth,
  a tie going to the even digit; any other value raises \<^verbatim>\<open>TypeError\<close>.
\<close>

definition round_half_even :: "rat \<Rightarrow> int" where
  "round_half_even x =
     (let f = \<lfloor>x\<rfloor>; d = x - of_int f
      in if d < 1 / 2 then f
         else if 1 / 2 < d then f + 1
         else if even f then f else f + 1)"

fun round_float1 :: "pyfloat \<Rightarrow> pyfloat" where
  "round_float1 (Finite x) = Finite (of_int (round_half_even (x * 10)) / 10)"
| "round_float1 PosInf = PosInf"
| "round_float1 NegInf = NegInf"
| "round_float1 NaN = NaN"

fun py_round1 :: "json \<Rightarrow> exn + json" where
  "py_round1 (JInt n) = Inr (JInt n)"
| "py_round1 (JBool b) = Inr (JInt (if b then 1 else 0))"
| "py_round1 (JFloat f) = Inr (JFloat (round_float1 f))"
| "py_round1 JNull = Inl TypeError"
| "py_round1 (JStr s) = Inl TypeError"
| "py_round1 (JArr xs) = Inl TypeError"
| "py_round1 (JObj d) = Inl TypeError"

text \<open>\<^verbatim>\<open>str(n)\<close> of an integer, as the f-string of the URL formats the movie id.\<close>

definition digit_char :: "nat \<Rightarrow> char" where
  "digit_char n = ''0123456789'' ! (n mod 10)"

fun str_nat :: "nat \<Rightarrow> string" where
  "str_nat n = (if n < 10 then [digit_char n] else str_nat (n div 10) @ [digit_char n])"

definition str_int :: "int \<Rightarrow> string" where
  "str_int i = (if i < 0 then CHR ''-'' # str_nat (nat (- i)) else str_nat (nat i))"

section \<open>The outside world\<close>

text \<open>
  What the program does to the outside is recorded in a log of events, oldest first:
  the HTTP requests it sends (URL, headers, timeout) and the notices it shows through
  \<^verbatim>\<open>st.warning\<close> and \<^verbatim>\<open>st.error\<close> (recorded by their arguments, not by the
  formatted text).
\<close>

datatype event =
    Http_get string "(string \<times> string) list" nat
  | St_warning int exn
  | St_error exn

text \<open>
  The metadata service and the transport with its retries are not part of the program.
  \<^verbatim>\<open>http.get\<close> either raises an exception of the \<^verbatim>\<open>RequestException\<close> family
  or returns a response with a status code and a body, which is JSON text or not. The
  answer may depend on everything that has happened so far and on the URL.
\<close>

datatype http_outcome =
    Raised request_exception
  | Response nat "json option"

type_synonym network = "event list \<Rightarrow> string \<Rightarrow> http_outcome"

section \<open>The metadata client: \<^verbatim>\<open>fetch_movie_details\<close>\<close>

definition no_api_key_snapshot :: dict where
  "no_api_key_snapshot =
     [(''poster_path'', JStr ''https://via.placeholder.com/500x750?text=No+API+Key''),
      (''overview'', JStr ''API key not configured''),
      (''release_date'', JStr ''Unknown''),
      (''rating'', JFloat (Finite 0)),
      (''runtime'', JStr ''N/A'')]"

definition network_failure_snapshot :: dict where
  "network_failure_snapshot =
     [(''poster_path'', JStr ''https://via.placeholder.com/500x750?text=No+Image+Available''),
      (''overview'', JStr ''Unable to fetch movie details''),
      (''release_date'', JStr ''Unknown''),
      (''rating'', JFloat (Finite 0)),
      (''runtime'', JStr ''N/A'')]"

text \<open>
  Lines 68 and 69: \<^verbatim>\<open>"https://image.tmdb.org/t/p/w500/" + poster_path if poster_path
  else "https://via.placeholder.com/..."\<close>. The concatenation is evaluated only for a
  truthy value, and raises \<^verbatim>\<open>TypeError\<close> when that value is not a string.
\<close>

definition poster_url :: "json \<Rightarrow> exn + string" where
  "poster_url poster_path =
     (if truthy poster_path
      then (case poster_path of
              JStr s \<Rightarrow> Inr (''https://image.tmdb.org/t/p/w500/'' @ s)
            | _ \<Rightarrow> Inl TypeError)
      else Inr ''https://via.placeholder.com/500x750?text=No+Image+Available'')"

text \<open>
  Lines 66 to 77, from the parsed body to the returned dictionary. \<^verbatim>\<open>data.get\<close>
  exists only on a dictionary: any other JSON value raises \<^verbatim>\<open>AttributeError\<close>.
\<close>

definition success_snapshot :: "json \<Rightarrow> exn + dict" where
  "success_snapshot data =
     (case data of
        JObj d \<Rightarrow>
          (case poster_url (dict_get d ''poster_path'' JNull) of
             Inl e \<Rightarrow> Inl e
           | Inr url \<Rightarrow>
               (case py_round1 (dict_get d ''vote_average'' (JInt 0)) of
                  Inl e \<Rightarrow> Inl e
                | Inr rating \<Rightarrow>
                    Inr [(''poster_path'', JStr url),
                         (''overview'', dict_get d ''overview'' (JStr ''No overview available'')),
                         (''release_date'', dict_get d ''release_date'' (JStr ''Release date unknown'')),
                         (''rating'', rating),
                         (''runtime'', dict_get d ''runtime'' (JStr ''N/A''))]))
      | _ \<Rightarrow> Inl AttributeError)"

definition request_url :: "string \<Rightarrow> int \<Rightarrow> string" where
  "request_url api_key movie_id =
     ''https://api.themoviedb.org/3/movie/'' @ str_int movie_id @ ''?api_key='' @ api_key"

definition request_headers :: "string \<Rightarrow> (string \<times> string) list" where
  "request_headers api_key =
     [(''Accept'', ''application/json''), (''Authorization'', ''Bearer '' @ api_key)]"

text \<open>The handler of line 78: a warning, then the fallback dictionary.\<close>

definition request_failed :: "int \<Rightarrow> request_exception \<Rightarrow> event list \<Rightarrow> (exn + dict) \<times> event list" where
  "request_failed movie_id e evs =
     (Inr network_failure_snapshot, evs @ [St_warning movie_id (RequestException e)])"

text \<open>
  The function returns a dictionary (\<open>Inr\<close>) or raises (\<open>Inl\<close>), and extends the log.
  \<^verbatim>\<open>not api_key\<close> holds for \<^verbatim>\<open>None\<close> and for the empty string.
  \<^verbatim>\<open>raise_for_status\<close> raises for the status codes 400 to 599. The handler catches
  \<^verbatim>\<open>RequestException\<close> only, so a \<^verbatim>\<open>TypeError\<close> or an \<^verbatim>\<open>AttributeError\<close>
  of the mapping leaves the function.
\<close>

definition fetch_movie_details ::
  "network \<Rightarrow> string option \<Rightarrow> int \<Rightarrow> event list \<Rightarrow> (exn + dict) \<times> event list" where
  "fetch_movie_details net api_key movie_id evs =
     (case api_key of
        None \<Rightarrow> (Inr no_api_key_snapshot, evs)
      | Some key \<Rightarrow>
          if key = [] then (Inr no_api_key_snapshot, evs)
          else
            (let url = request_url key movie_id;
                 evs1 = evs @ [Http_get url (request_headers key) 10]
             in case net evs url of
                  Raised e \<Rightarrow> request_failed movie_id e evs1
                | Response status body \<Rightarrow>
                    if 400 \<le> status \<and> status < 600
                    then request_failed movie_id (HTTPError status) evs1
                    else (case body of
                            None \<Rightarrow> request_failed movie_id JSONDecodeError evs1
                          | Some data \<Rightarrow> (success_snapshot data, evs1))))"

section \<open>The recommendation engine: \<^verbatim>\<open>recommend\<close>\<close>

text \<open>
  A row of the catalog (the data frame \<^verbatim>\<open>movies_list\<close>): its index label and the
  columns \<^verbatim>\<open>movie_id\<close> and \<^verbatim>\<open>title\<close>. The similarity matrix is a list of rows of
  scores.
\<close>

record catalog_entry =
  col_index :: int
  col_movie_id :: int
  col_title :: string

text \<open>
  Subscription by an integer, \<^verbatim>\<open>xs[i]\<close>: positions \<open>0\<close> to \<open>len - 1\<close>
  are read directly, \<open>- len\<close> to \<open>- 1\<close> are read from the end, and anything else raises
  \<^verbatim>\<open>IndexError\<close>.
\<close>

definition getitem :: "'a list \<Rightarrow> int \<Rightarrow> exn + 'a" where
  "getitem xs i =
     (if 0 \<le> i \<and> i < int (length xs) then Inr (xs ! nat i)
      else if - int (length xs) \<le> i \<and> i < 0 then Inr (xs ! nat (int (length xs) + i))
      else Inl IndexError)"

text \<open>
  \<^verbatim>\<open>sorted(xs, reverse=True)\<close> with no key: the list is reversed, sorted by a stable
  sort in ascending order, and reversed again. Tuples are compared component by
  component from the left, which is the lexicographic order on pairs.
\<close>

definition sorted_reverse :: "('a::linorder) list \<Rightarrow> 'a list" where
  "sorted_reverse xs = rev (sort (rev xs))"

text \<open>Line 92: \<^verbatim>\<open>sorted(list(enumerate(distances)), reverse=True)[1:6]\<close>.\<close>

definition movies_list_recommended :: "rat list \<Rightarrow> (nat \<times> rat) list" where
  "movies_list_recommended distances =
     take 5 (drop 1 (sorted_reverse (enumerate 0 distances)))"

text \<open>The loop of lines 97 to 100, with the two lists it appends to.\<close>

fun recommend_loop ::
  "network \<Rightarrow> string option \<Rightarrow> catalog_entry list \<Rightarrow> (nat \<times> rat) list \<Rightarrow>
   string list \<Rightarrow> dict list \<Rightarrow> event list \<Rightarrow> (exn + string list \<times> dict list) \<times> event list" where
  "recommend_loop net api_key movies_list [] recommended_names recommended_details evs =
     (Inr (recommended_names, recommended_details), evs)"
| "recommend_loop net api_key movies_list (i # rest) recommended_names recommended_details evs =
     (case getitem movies_list (int (fst i)) of
        Inl e \<Rightarrow> (Inl e, evs)
      | Inr row \<Rightarrow>
          (case fetch_movie_details net api_key (col_movie_id row) evs of
             (Inl e, evs') \<Rightarrow> (Inl e, evs')
           | (Inr details, evs') \<Rightarrow>
               recommend_loop net api_key movies_list rest
                 (recommended_names @ [col_title row]) (recommended_details @ [details]) evs'))"

text \<open>
  The body of the \<^verbatim>\<open>try\<close>. Line 90 takes the index label of the first row whose
  title is the query; with no such row \<^verbatim>\<open>.index[0]\<close> raises \<^verbatim>\<open>IndexError\<close>.
\<close>

definition recommend_try ::
  "network \<Rightarrow> string option \<Rightarrow> catalog_entry list \<Rightarrow> rat list list \<Rightarrow> string \<Rightarrow>
   event list \<Rightarrow> (exn + string list \<times> dict list) \<times> event list" where
  "recommend_try net api_key movies_list similarity movie evs =
     (case filter (\<lambda>r. col_title r = movie) movies_list of
        [] \<Rightarrow> (Inl IndexError, evs)
      | r # _ \<Rightarrow>
          (case getitem similarity (col_index r) of
             Inl e \<Rightarrow> (Inl e, evs)
           | Inr distances \<Rightarrow>
               recommend_loop net api_key movies_list (movies_list_recommended distances) [] [] evs))"

text \<open>\<^verbatim>\<open>except Exception\<close>: an error notice and two empty lists.\<close>

definition recommend ::
  "network \<Rightarrow> string option \<Rightarrow> catalog_entry list \<Rightarrow> rat list list \<Rightarrow> string \<Rightarrow>
   event list \<Rightarrow> (string list \<times> dict list) \<times> event list" where
  "recommend net api_key movies_list similarity movie evs =
     (case recommend_try net api_key movies_list similarity movie evs of
        (Inr result, evs') \<Rightarrow> (result, evs')
      | (Inl e, evs') \<Rightarrow> (([], []), evs' @ [St_error e]))"

section \<open>Inputs and predicates of the statements\<close>

text \<open>
  The data model of the catalog: the index labels are the row positions, and the
  similarity matrix is square, its dimension the number of rows of the catalog.
\<close>

definition well_formed :: "catalog_entry list \<Rightarrow> rat list list \<Rightarrow> bool" where
  "well_formed movies_list similarity =
     (map col_index movies_list = map int [0..<length movies_list] \<and>
      length similarity = length movies_list \<and>
      list_all (\<lambda>row. length row = length movies_list) similarity)"

text \<open>A number: Python's \<^verbatim>\<open>int\<close>, \<^verbatim>\<open>bool\<close> and \<^verbatim>\<open>float\<close>.\<close>

fun is_number :: "json \<Rightarrow> bool" where
  "is_number (JInt n) = True"
| "is_number (JBool b) = True"
| "is_number (JFloat f) = True"
| "is_number JNull = False"
| "is_number (JStr s) = False"
| "is_number (JArr xs) = False"
| "is_number (JObj d) = False"

fun is_str :: "json \<Rightarrow> bool" where
  "is_str (JStr s) = True"
| "is_str JNull = False"
| "is_str (JBool b) = False"
| "is_str (JInt n) = False"
| "is_str (JFloat f) = False"
| "is_str (JArr xs) = False"
| "is_str (JObj d) = False"

text \<open>
  A body on which the mapping of lines 68 to 77 raises nothing: a dictionary whose
  \<^verbatim>\<open>poster_path\<close> is missing, falsy or a string, and whose \<^verbatim>\<open>vote_average\<close>
  is missing or a number.
\<close>

definition well_typed_body :: "json \<Rightarrow> bool" where
  "well_typed_body data =
     (case data of
        JObj d \<Rightarrow>
          (if truthy (dict_get d ''poster_path'' JNull)
           then is_str (dict_get d ''poster_path'' JNull) else True) \<and>
          is_number (dict_get d ''vote_average'' (JInt 0))
      | _ \<Rightarrow> False)"

text \<open>
  The outcomes of \<^verbatim>\<open>http.get\<close> that end in the handler of line 78: an exception of
  the transport, a status code from 400 to 599, or a body that is not JSON.
\<close>

fun transport_failure :: "http_outcome \<Rightarrow> bool" where
  "transport_failure (Raised e) = True"
| "transport_failure (Response status body) =
     (if 400 \<le> status \<and> status < 600 then True else body = None)"


text \<open>A number between 0 and 10, and a number with at most one decimal place.\<close>

fun in_0_10 :: "json \<Rightarrow> bool" where
  "in_0_10 (JInt n) = (0 \<le> n \<and> n \<le> 10)"
| "in_0_10 (JBool b) = True"
| "in_0_10 (JFloat (Finite x)) = (0 \<le> x \<and> x \<le> 10)"
| "in_0_10 (JFloat PosInf) = False"
| "in_0_10 (JFloat NegInf) = False"
| "in_0_10 (JFloat NaN) = False"
| "in_0_10 JNull = False"
| "in_0_10 (JStr s) = False"
| "in_0_10 (JArr xs) = False"
| "in_0_10 (JObj d) = False"

fun one_decimal :: "json \<Rightarrow> bool" where
  "one_decimal (JInt n) = True"
| "one_decimal (JFloat (Finite x)) = (of_int \<lfloor>x * 10\<rfloor> = x * 10)"
| "one_decimal (JFloat PosInf) = False"
| "one_decimal (JFloat NegInf) = False"
| "one_decimal (JFloat NaN) = False"
| "one_decimal (JBool b) = False"
| "one_decimal JNull = False"
| "one_decimal (JStr s) = False"
| "one_decimal (JArr xs) = False"
| "one_decimal (JObj d) = False"

text \<open>
  The neighbour selection as the specification words it: the pairs ordered by score
  descending, a tie by index descending; the first dropped, the next five kept.
\<close>

definition spec_neighbors :: "rat list \<Rightarrow> (nat \<times> rat) list" where
  "spec_neighbors distances =
     take 5 (drop 1 (rev (sort_key (\<lambda>p. (snd p, fst p)) (enumerate 0 distances))))"

text \<open>
  The movie ids for which \<^verbatim>\<open>recommend\<close> calls \<^verbatim>\<open>fetch_movie_details\<close>, in the
  order of the loop, when the row of the query is \<open>distances\<close>.
\<close>

definition requested_ids :: "catalog_entry list \<Rightarrow> rat list \<Rightarrow> int list" where
  "requested_ids movies_list distances =
     map (\<lambda>p. col_movie_id (movies_list ! fst p)) (movies_list_recommended distances)"

text \<open>
  No call raises: \<^verbatim>\<open>fetch_movie_details\<close> is called for the given ids one after the
  other, each call on the log that the call before it left, and every call returns.
\<close>

fun all_fetches_return :: "network \<Rightarrow> string option \<Rightarrow> int list \<Rightarrow> event list \<Rightarrow> bool" where
  "all_fetches_return net api_key [] evs = True"
| "all_fetches_return net api_key (movie_id # rest) evs =
     (case fetch_movie_details net api_key movie_id evs of
        (Inl e, evs') \<Rightarrow> False
      | (Inr details, evs') \<Rightarrow> all_fetches_return net api_key rest evs')"

text \<open>The catalog and the similarity matrix of the scenario with six titles.\<close>

definition catalog_AF :: "catalog_entry list" where
  "catalog_AF =
     [\<lparr>col_index = 0, col_movie_id = 100, col_title = ''A''\<rparr>,
      \<lparr>col_index = 1, col_movie_id = 101, col_title = ''B''\<rparr>,
      \<lparr>col_index = 2, col_movie_id = 102, col_title = ''C''\<rparr>,
      \<lparr>col_index = 3, col_movie_id = 103, col_title = ''D''\<rparr>,
      \<lparr>col_index = 4, col_movie_id = 104, col_title = ''E''\<rparr>,
      \<lparr>col_index = 5, col_movie_id = 105, col_title = ''F''\<rparr>]"

definition row_A :: "rat list" where
  "row_A = [1, 9 / 10, 8 / 10, 7 / 10, 6 / 10, 5 / 10]"

definition similarity_AF :: "rat list list" where
  "similarity_AF =
     [row_A,
      [9 / 10, 1, 9 / 10, 8 / 10, 7 / 10, 6 / 10],
      [8 / 10, 9 / 10, 1, 9 / 10, 8 / 10, 7 / 10],
      [7 / 10, 8 / 10, 9 / 10, 1, 9 / 10, 8 / 10],
      [6 / 10, 7 / 10, 8 / 10, 9 / 10, 1, 9 / 10],
      [5 / 10, 6 / 10, 7 / 10, 8 / 10, 9 / 10, 1]]"

text \<open>A catalog of three titles and one of two.\<close>

definition catalog_ABC :: "catalog_entry list" where
  "catalog_ABC =
     [\<lparr>col_index = 0, col_movie_id = 7, col_title = ''A''\<rparr>,
      \<lparr>col_index = 1, col_movie_id = 8, col_title = ''B''\<rparr>,
      \<lparr>col_index = 2, col_movie_id = 9, col_title = ''C''\<rparr>]"

definition similarity_ABC :: "rat list list" where
  "similarity_ABC = [[1, 2 / 10, 3 / 10], [2 / 10, 1, 4 / 10], [3 / 10, 4 / 10, 1]]"

definition catalog_AB :: "catalog_entry list" where
  "catalog_AB =
     [\<lparr>col_index = 0, col_movie_id = 7, col_title = ''A''\<rparr>,
      \<lparr>col_index = 1, col_movie_id = 8, col_title = ''B''\<rparr>]"

definition similarity_AB :: "rat list list" where
  "similarity_AB = [[1, 1 / 2], [1 / 2, 1]]"

text \<open>
  Networks: one that is down, and one that answers every request with status 200 and a
  given JSON body.
\<close>

definition net_down :: network where
  "net_down = (\<lambda>evs url. Raised Timeout)"

definition net_ok :: "json \<Rightarrow> network" where
  "net_ok data = (\<lambda>evs url. Response 200 (Some data))"

section \<open>Facts about the metadata client\<close>

lemma fetch_no_key:
  "fetch_movie_details net None movie_id evs = (Inr no_api_key_snapshot, evs)"
  "fetch_movie_details net (Some []) movie_id evs = (Inr no_api_key_snapshot, evs)"
  by (simp_all add: fetch_movie_details_def)

lemma fetch_with_key:
  assumes "key \<noteq> []"
  shows "fetch_movie_details net (Some key) movie_id evs =
     (let evs1 = evs @ [Http_get (request_url key movie_id) (request_headers key) 10]
      in case net evs (request_url key movie_id) of
           Raised e \<Rightarrow> request_failed movie_id e evs1
         | Response status body \<Rightarrow>
             if 400 \<le> status \<and> status < 600
             then request_failed movie_id (HTTPError status) evs1
             else (case body of
                     None \<Rightarrow> request_failed movie_id JSONDecodeError evs1
                   | Some data \<Rightarrow> (success_snapshot data, evs1)))"
  using assms by (simp add: fetch_movie_details_def Let_def)

text \<open>
  C9. With no API credential configured (\<^verbatim>\<open>api_key\<close> is \<^verbatim>\<open>None\<close> or empty), for
  every movie id and whatever the network would answer, \<^verbatim>\<open>fetch_movie_details\<close>
  returns the fallback with the poster placeholder "No+API+Key", the overview
  "API key not configured", the release date "Unknown", the rating 0.0 and the runtime
  "N/A", and the log of events is unchanged: no request is sent.
\<close>

theorem fetch_movie_details_no_credential:
  assumes "api_key = None \<or> api_key = Some []"
  shows "fetch_movie_details net api_key movie_id evs =
     (Inr [(''poster_path'', JStr ''https://via.placeholder.com/500x750?text=No+API+Key''),
           (''overview'', JStr ''API key not configured''),
           (''release_date'', JStr ''Unknown''),
           (''rating'', JFloat (Finite 0)),
           (''runtime'', JStr ''N/A'')], evs)"
  using assms by (auto simp: fetch_no_key no_api_key_snapshot_def)

theorem fetch_movie_details_no_credential_witness:
  "fetch_movie_details (net_ok (JObj [])) None 42 [] =
     (Inr [(''poster_path'', JStr ''https://via.placeholder.com/500x750?text=No+API+Key''),
           (''overview'', JStr ''API key not configured''),
           (''release_date'', JStr ''Unknown''),
           (''rating'', JFloat (Finite 0)),
           (''runtime'', JStr ''N/A'')], [])"
  using fetch_movie_details_no_credential [of None "net_ok (JObj [])" 42 "[]"] by simp

section \<open>Facts about the neighbour selection\<close>

lemma sorted_enumerate_pairs: "sorted (enumerate n xs)"
proof (induction xs arbitrary: n)
  case Nil
  show ?case by simp
next
  case (Cons x xs)
  have "(n, x) \<le> p" if "p \<in> set (enumerate (Suc n) xs)" for p
  proof -
    from that have "n < fst p" by (simp add: in_set_enumerate_eq)
    then show ?thesis by (simp add: less_eq_prod_def)
  qed
  with Cons show ?case by simp
qed

lemma sorted_reverse_enumerate: "sorted_reverse (enumerate n xs) = rev (enumerate n xs)"
proof -
  have "sort (rev (enumerate n xs)) = enumerate n xs"
    by (rule sorted_distinct_set_unique)
       (simp_all add: sorted_enumerate_pairs distinct_enumerate)
  then show ?thesis by (simp add: sorted_reverse_def)
qed

lemma movies_list_recommended_rev:
  "movies_list_recommended distances = take 5 (drop 1 (rev (enumerate 0 distances)))"
  by (simp add: movies_list_recommended_def sorted_reverse_enumerate)

lemma length_movies_list_recommended:
  "length (movies_list_recommended distances) = min 5 (length distances - 1)"
  by (simp add: movies_list_recommended_rev)

lemma movies_list_recommended_in_range:
  assumes "p \<in> set (movies_list_recommended distances)"
  shows "fst p < length distances"
proof -
  from assms have "p \<in> set (enumerate 0 distances)"
    unfolding movies_list_recommended_rev
    by (metis in_set_dropD in_set_takeD set_rev)
  then show ?thesis by (simp add: in_set_enumerate_eq)
qed

lemma getitem_nat: "i < length xs \<Longrightarrow> getitem xs (int i) = Inr (xs ! i)"
  by (simp add: getitem_def)

section \<open>Facts about the field mapping and the rounding\<close>



lemma round_half_even_near:
  "\<bar>of_int (round_half_even y) - y\<bar> \<le> 1 / 2"
proof -
  have "of_int \<lfloor>y\<rfloor> \<le> y" "y < of_int \<lfloor>y\<rfloor> + 1" by linarith+
  then show ?thesis
    by (auto simp: round_half_even_def Let_def)
qed

lemma round_half_even_range:
  assumes "0 \<le> y" "y \<le> of_int m"
  shows "0 \<le> round_half_even y \<and> round_half_even y \<le> m"
proof -
  have lo: "0 \<le> \<lfloor>y\<rfloor>" using assms(1) by simp
  have hi: "\<lfloor>y\<rfloor> \<le> m" using assms(2) by (simp add: floor_le_iff)
  have "round_half_even y \<le> m"
  proof (cases "\<lfloor>y\<rfloor> = m")
    case True
    then have "y - of_int \<lfloor>y\<rfloor> \<le> 0" using assms(2) by simp
    then show ?thesis using True by (simp add: round_half_even_def Let_def)
  next
    case False
    with hi have "\<lfloor>y\<rfloor> + 1 \<le> m" by simp
    then show ?thesis using hi by (simp add: round_half_even_def Let_def)
  qed
  moreover have "0 \<le> round_half_even y"
    using lo by (simp add: round_half_even_def Let_def)
  ultimately show ?thesis by simp
qed

lemma py_round1_in_0_10:
  assumes "in_0_10 v"
  shows "\<exists>r. py_round1 v = Inr r \<and> in_0_10 r \<and> one_decimal r"
proof (cases v)
  case (JFloat f)
  show ?thesis
  proof (cases f)
    case (Finite x)
    with JFloat assms have "0 \<le> x * 10" "x * 10 \<le> of_int 100" by simp_all
    from round_half_even_range [OF this]
    show ?thesis using JFloat Finite by simp
  qed (use JFloat assms in simp_all)
qed (use assms in simp_all)



section \<open>Facts about the loop of \<^verbatim>\<open>recommend\<close>\<close>

lemma recommend_loop_outcome:
  assumes "\<And>p. p \<in> set sel \<Longrightarrow> fst p < length movies_list"
  shows "(all_fetches_return net api_key (map (\<lambda>p. col_movie_id (movies_list ! fst p)) sel) evs \<longrightarrow>
            (\<exists>ds evs'. recommend_loop net api_key movies_list sel names details evs =
               (Inr (names @ map (\<lambda>p. col_title (movies_list ! fst p)) sel, details @ ds), evs')
             \<and> length ds = length sel)) \<and>
         (\<not> all_fetches_return net api_key (map (\<lambda>p. col_movie_id (movies_list ! fst p)) sel) evs \<longrightarrow>
            (\<exists>e evs'. recommend_loop net api_key movies_list sel names details evs = (Inl e, evs')))"
  using assms
proof (induction sel arbitrary: names details evs)
  case Nil
  show ?case by simp
next
  case (Cons i rest)
  have i: "fst i < length movies_list" using Cons.prems by simp
  have rest: "\<And>p. p \<in> set rest \<Longrightarrow> fst p < length movies_list" using Cons.prems by simp
  obtain res evs1 where f:
    "fetch_movie_details net api_key (col_movie_id (movies_list ! fst i)) evs = (res, evs1)"
    by (cases "fetch_movie_details net api_key (col_movie_id (movies_list ! fst i)) evs")
  show ?case
  proof (cases res)
    case (Inl e)
    with i f show ?thesis by (simp add: getitem_nat)
  next
    case (Inr d)
    from Cons.IH [OF rest, of evs1 "names @ [col_title (movies_list ! fst i)]" "details @ [d]"]
    have ih: "(all_fetches_return net api_key (map (\<lambda>p. col_movie_id (movies_list ! fst p)) rest) evs1 \<longrightarrow>
            (\<exists>ds evs'. recommend_loop net api_key movies_list rest
                 (names @ [col_title (movies_list ! fst i)]) (details @ [d]) evs1 =
               (Inr (names @ col_title (movies_list ! fst i) # map (\<lambda>p. col_title (movies_list ! fst p)) rest,
                     details @ d # ds), evs')
             \<and> length ds = length rest)) \<and>
         (\<not> all_fetches_return net api_key (map (\<lambda>p. col_movie_id (movies_list ! fst p)) rest) evs1 \<longrightarrow>
            (\<exists>e evs'. recommend_loop net api_key movies_list rest
                 (names @ [col_title (movies_list ! fst i)]) (details @ [d]) evs1 = (Inl e, evs')))"
      by simp
    have step: "recommend_loop net api_key movies_list (i # rest) names details evs =
        recommend_loop net api_key movies_list rest
          (names @ [col_title (movies_list ! fst i)]) (details @ [d]) evs1"
      using i f Inr by (simp add: getitem_nat)
    have ret: "all_fetches_return net api_key
          (map (\<lambda>p. col_movie_id (movies_list ! fst p)) (i # rest)) evs =
        all_fetches_return net api_key (map (\<lambda>p. col_movie_id (movies_list ! fst p)) rest) evs1"
      using f Inr by simp
    show ?thesis
    proof (intro conjI impI)
      assume "all_fetches_return net api_key
          (map (\<lambda>p. col_movie_id (movies_list ! fst p)) (i # rest)) evs"
      with ret ih obtain ds evs' where
        "recommend_loop net api_key movies_list rest
                 (names @ [col_title (movies_list ! fst i)]) (details @ [d]) evs1 =
               (Inr (names @ col_title (movies_list ! fst i) # map (\<lambda>p. col_title (movies_list ! fst p)) rest,
                     details @ d # ds), evs')" "length ds = length rest" by blast
      with step have "recommend_loop net api_key movies_list (i # rest) names details evs =
          (Inr (names @ map (\<lambda>p. col_title (movies_list ! fst p)) (i # rest), details @ (d # ds)), evs')
          \<and> length (d # ds) = length (i # rest)" by simp
      then show "\<exists>ds evs'. recommend_loop net api_key movies_list (i # rest) names details evs =
               (Inr (names @ map (\<lambda>p. col_title (movies_list ! fst p)) (i # rest), details @ ds), evs')
             \<and> length ds = length (i # rest)" by blast
    next
      assume "\<not> all_fetches_return net api_key
          (map (\<lambda>p. col_movie_id (movies_list ! fst p)) (i # rest)) evs"
      with ret ih step
      show "\<exists>e evs'. recommend_loop net api_key movies_list (i # rest) names details evs = (Inl e, evs')"
        by simp
    qed
  qed
qed

lemma filter_first_match:
  assumes "i < length xs" and "P (xs ! i)" and "\<And>j. j < i \<Longrightarrow> \<not> P (xs ! j)"
  shows "\<exists>rest. filter P xs = xs ! i # rest"
proof -
  have "filter P (take i xs) = []"
    using assms(1,3) by (auto simp: filter_empty_conv in_set_conv_nth)
  moreover have "xs = take i xs @ xs ! i # drop (Suc i) xs"
    using assms(1) by (simp add: id_take_nth_drop)
  ultimately have "filter P xs = filter P (xs ! i # drop (Suc i) xs)"
    by (metis append_Nil filter_append)
  with assms(2) show ?thesis by simp
qed

text \<open>
  C4. For every title that does not occur in the catalog, \<^verbatim>\<open>recommend\<close> returns two
  empty sequences and raises nothing: line 90 raises \<^verbatim>\<open>IndexError\<close>, which the
  handler of line 102 catches; the only event is the error notice, and no request is sent.
\<close>

theorem recommend_absent_title:
  assumes "movie \<notin> set (map col_title movies_list)"
  shows "recommend net api_key movies_list similarity movie evs = (([], []), evs @ [St_error IndexError])"
proof -
  have "filter (\<lambda>r. col_title r = movie) movies_list = []"
    using assms by (auto simp: filter_empty_conv)
  then show ?thesis by (simp add: recommend_def recommend_try_def)
qed

theorem recommend_absent_title_witness:
  "''Z'' \<notin> set (map col_title catalog_AF) \<and>
   recommend (net_ok (JObj [])) (Some ''k'') catalog_AF similarity_AF ''Z'' [] =
     (([], []), [St_error IndexError])"
proof -
  have h: "''Z'' \<notin> set (map col_title catalog_AF)" by (simp add: catalog_AF_def)
  show ?thesis
    using h recommend_absent_title [OF h, of "net_ok (JObj [])" "Some ''k''" similarity_AF "[]"]
    by simp
qed

text \<open>
  C5, as amended. In a well-formed catalog of any size \<open>n\<close>, let row \<open>i\<close> be the first
  row whose title is the query (for a title that occurs once: its row). Then
  \<^verbatim>\<open>recommend\<close> calls \<^verbatim>\<open>fetch_movie_details\<close> for \<open>min 5 (n - 1)\<close> movie ids. If
  none of these calls raises, the body of the \<^verbatim>\<open>try\<close> completes without an exception
  and \<^verbatim>\<open>recommend\<close> returns exactly \<open>min 5 (n - 1)\<close> entries in each of its two
  sequences. If one of them raises, the handler of line 102 catches the exception and
  \<^verbatim>\<open>recommend\<close> returns two empty sequences.
\<close>

theorem recommend_count:
  assumes "well_formed movies_list similarity"
      and "i < length movies_list"
      and "col_title (movies_list ! i) = movie"
      and "\<And>j. j < i \<Longrightarrow> col_title (movies_list ! j) \<noteq> movie"
  shows "length (requested_ids movies_list (similarity ! i)) = min 5 (length movies_list - 1) \<and>
         (all_fetches_return net api_key (requested_ids movies_list (similarity ! i)) evs \<longrightarrow>
            (\<exists>names details evs'.
               recommend_try net api_key movies_list similarity movie evs = (Inr (names, details), evs') \<and>
               recommend net api_key movies_list similarity movie evs = ((names, details), evs') \<and>
               length names = min 5 (length movies_list - 1) \<and>
               length details = min 5 (length movies_list - 1))) \<and>
         (\<not> all_fetches_return net api_key (requested_ids movies_list (similarity ! i)) evs \<longrightarrow>
            (\<exists>e evs'.
               recommend_try net api_key movies_list similarity movie evs = (Inl e, evs') \<and>
               recommend net api_key movies_list similarity movie evs = (([], []), evs' @ [St_error e])))"
proof -
  from assms(1) have labels: "map col_index movies_list = map int [0..<length movies_list]"
    and rows: "length similarity = length movies_list"
    and cols: "list_all (\<lambda>row. length row = length movies_list) similarity"
    by (simp_all add: well_formed_def)
  from filter_first_match [of i movies_list "\<lambda>r. col_title r = movie"] assms(2,3,4)
  obtain rest where fm: "filter (\<lambda>r. col_title r = movie) movies_list = movies_list ! i # rest"
    by blast
  have "map col_index movies_list ! i = map int [0..<length movies_list] ! i"
    using labels by simp
  with assms(2) have lab: "col_index (movies_list ! i) = int i" by simp
  have row: "getitem similarity (col_index (movies_list ! i)) = Inr (similarity ! i)"
    using assms(2) rows lab by (simp add: getitem_nat)
  have len: "length (similarity ! i) = length movies_list"
    using cols assms(2) rows by (simp add: list_all_length)
  let ?sel = "movies_list_recommended (similarity ! i)"
  have range: "\<And>p. p \<in> set ?sel \<Longrightarrow> fst p < length movies_list"
    using movies_list_recommended_in_range len by metis
  have t: "recommend_try net api_key movies_list similarity movie evs =
      recommend_loop net api_key movies_list ?sel [] [] evs"
    using fm row by (simp add: recommend_try_def)
  have n: "length (requested_ids movies_list (similarity ! i)) = min 5 (length movies_list - 1)"
    by (simp add: requested_ids_def length_movies_list_recommended len)
  from recommend_loop_outcome [OF range, where net = net and api_key = api_key and evs = evs
      and names = "[]" and details = "[]"]
  have out: "(all_fetches_return net api_key (requested_ids movies_list (similarity ! i)) evs \<longrightarrow>
            (\<exists>ds evs'. recommend_loop net api_key movies_list ?sel [] [] evs =
               (Inr (map (\<lambda>p. col_title (movies_list ! fst p)) ?sel, ds), evs')
             \<and> length ds = length ?sel)) \<and>
         (\<not> all_fetches_return net api_key (requested_ids movies_list (similarity ! i)) evs \<longrightarrow>
            (\<exists>e evs'. recommend_loop net api_key movies_list ?sel [] [] evs = (Inl e, evs')))"
    by (simp add: requested_ids_def)
  have a: "\<exists>names details evs'.
               recommend_try net api_key movies_list similarity movie evs = (Inr (names, details), evs') \<and>
               recommend net api_key movies_list similarity movie evs = ((names, details), evs') \<and>
               length names = min 5 (length movies_list - 1) \<and>
               length details = min 5 (length movies_list - 1)"
    if "all_fetches_return net api_key (requested_ids movies_list (similarity ! i)) evs"
  proof -
    from that out obtain ds evs' where
      l: "recommend_loop net api_key movies_list ?sel [] [] evs =
               (Inr (map (\<lambda>p. col_title (movies_list ! fst p)) ?sel, ds), evs')"
      and d: "length ds = length ?sel" by blast
    from l t have "recommend_try net api_key movies_list similarity movie evs =
        (Inr (map (\<lambda>p. col_title (movies_list ! fst p)) ?sel, ds), evs')" by simp
    moreover from this have "recommend net api_key movies_list similarity movie evs =
        ((map (\<lambda>p. col_title (movies_list ! fst p)) ?sel, ds), evs')"
      by (simp add: recommend_def)
    moreover have "length (map (\<lambda>p. col_title (movies_list ! fst p)) ?sel) = min 5 (length movies_list - 1)"
      by (simp add: length_movies_list_recommended len)
    moreover have "length ds = min 5 (length movies_list - 1)"
      using d by (simp add: length_movies_list_recommended len)
    ultimately show ?thesis by blast
  qed
  have b: "\<exists>e evs'.
               recommend_try net api_key movies_list similarity movie evs = (Inl e, evs') \<and>
               recommend net api_key movies_list similarity movie evs = (([], []), evs' @ [St_error e])"
    if "\<not> all_fetches_return net api_key (requested_ids movies_list (similarity ! i)) evs"
  proof -
    from that out obtain e evs' where
      "recommend_loop net api_key movies_list ?sel [] [] evs = (Inl e, evs')" by blast
    with t have r: "recommend_try net api_key movies_list similarity movie evs = (Inl e, evs')"
      by simp
    then have "recommend net api_key movies_list similarity movie evs = (([], []), evs' @ [St_error e])"
      by (simp add: recommend_def)
    with r show ?thesis by blast
  qed
  from n a b show ?thesis by blast
qed

section \<open>The claims about \<^verbatim>\<open>recommend\<close> on concrete inputs\<close>

theorem recommend_count_witness:
  "well_formed catalog_AB similarity_AB \<and> col_title (catalog_AB ! 0) = ''A'' \<and>
   all_fetches_return net_down (Some ''k'') (requested_ids catalog_AB (similarity_AB ! 0)) [] \<and>
   length (requested_ids catalog_AB (similarity_AB ! 0)) = 1 \<and>
   (\<exists>names details evs'.
      recommend net_down (Some ''k'') catalog_AB similarity_AB ''A'' [] = ((names, details), evs') \<and>
      length names = 1 \<and> length details = 1)"
proof -
  have wf: "well_formed catalog_AB similarity_AB"
    by (simp add: well_formed_def catalog_AB_def similarity_AB_def upt_rec)
  have i: "0 < length catalog_AB" by (simp add: catalog_AB_def)
  have t: "col_title (catalog_AB ! 0) = ''A''" by (simp add: catalog_AB_def)
  have f: "\<And>j. j < (0::nat) \<Longrightarrow> col_title (catalog_AB ! j) \<noteq> ''A''" by simp
  have r: "all_fetches_return net_down (Some ''k'') (requested_ids catalog_AB (similarity_AB ! 0)) []"
    by code_simp
  have n: "length catalog_AB = 2" by (simp add: catalog_AB_def)
  from recommend_count [OF wf i t f, of net_down "Some ''k''" "[]"] r n wf t
  show ?thesis by auto
qed

text \<open>
  C5 as stated fails: in the well-formed catalog of two titles, when the service answers
  with a body whose \<^verbatim>\<open>vote_average\<close> is \<^verbatim>\<open>null\<close>, the call of
  \<^verbatim>\<open>fetch_movie_details\<close> raises \<^verbatim>\<open>TypeError\<close>, the handler of line 102
  catches it, and \<^verbatim>\<open>recommend\<close> returns two empty sequences instead of one entry each.
\<close>

theorem recommend_count_counterexample:
  "well_formed catalog_AB similarity_AB \<and> ''A'' \<in> set (map col_title catalog_AB) \<and>
   length catalog_AB = 2 \<and>
   fst (recommend (net_ok (JObj [(''vote_average'', JNull)])) (Some ''k'')
          catalog_AB similarity_AB ''A'' []) = ([], [])"
  by code_simp

text \<open>
  C1. In the scenario with the titles A to F and the similarity row
  \<open>[1.0, 0.9, 0.8, 0.7, 0.6, 0.5]\<close> of A, the specification expects the names B, C, D,
  E, F. Line 92 sorts the pairs \<open>(index, score)\<close> with no key, hence by index, and the
  program returns E, D, C, B, A (here with every request answered by an empty JSON object).
\<close>

theorem recommend_scenario_names:
  "fst (fst (recommend (net_ok (JObj [])) (Some ''k'') catalog_AF similarity_AF ''A'' [])) =
     [''E'', ''D'', ''C'', ''B'', ''A'']"
  by code_simp

text \<open>
  C2. The specification orders the pairs by score descending, a tie by index descending,
  drops the first and keeps the next five. On the row of the scenario that gives the
  indices 1, 2, 3, 4, 5, while line 92 of the program gives the indices 4, 3, 2, 1, 0:
  its order is by index descending, whatever the scores.
\<close>

theorem neighbour_order_scenario:
  "movies_list_recommended row_A = [(4, 6 / 10), (3, 7 / 10), (2, 8 / 10), (1, 9 / 10), (0, 1)] \<and>
   spec_neighbors row_A = [(1, 9 / 10), (2, 8 / 10), (3, 7 / 10), (4, 6 / 10), (5, 5 / 10)]"
  by code_simp

text \<open>
  C3. The specification excludes the queried title from the result. In the catalog of
  three titles, where A occurs once and its similarity to itself is the maximum of its
  row, \<^verbatim>\<open>recommend\<close> on A returns the names B and A: the query itself is among them.
\<close>

theorem recommend_contains_query:
  "''A'' \<in> set (fst (fst (recommend net_down (Some ''k'') catalog_ABC similarity_ABC ''A'' [])))"
  by code_simp


section \<open>When \<^verbatim>\<open>fetch_movie_details\<close> returns\<close>


lemma success_snapshot_rating:
  assumes "success_snapshot (JObj d) = Inr snap"
  shows "\<exists>r. py_round1 (dict_get d ''vote_average'' (JInt 0)) = Inr r \<and>
             map_of snap ''rating'' = Some r"
  using assms
  by (auto simp: success_snapshot_def split: sum.splits)

lemma success_snapshot_not_dict:
  assumes "success_snapshot data = Inr snap"
  shows "\<exists>d. data = JObj d"
  using assms by (cases data) (simp_all add: success_snapshot_def)

lemma fetch_result_cases:
  assumes "fst (fetch_movie_details net api_key movie_id evs) = Inr snap"
  shows "snap = no_api_key_snapshot \<or> snap = network_failure_snapshot \<or>
         (\<exists>key status d. api_key = Some key \<and>
            net evs (request_url key movie_id) = Response status (Some (JObj d)) \<and>
            success_snapshot (JObj d) = Inr snap)"
proof (cases api_key)
  case None
  with assms show ?thesis by (simp add: fetch_no_key)
next
  case (Some key)
  show ?thesis
  proof (cases "key = []")
    case True
    with Some assms show ?thesis by (simp add: fetch_no_key)
  next
    case False
    show ?thesis
    proof (cases "net evs (request_url key movie_id)")
      case (Raised e)
      with Some False assms show ?thesis
        by (auto simp: fetch_with_key request_failed_def Let_def)
    next
      case (Response status body)
      show ?thesis
      proof (cases body)
        case None
        with Response Some False assms show ?thesis
          by (auto simp: fetch_with_key request_failed_def Let_def split: if_splits)
      next
        case (Some data)
        show ?thesis
        proof (cases "400 \<le> status \<and> status < 600")
          case True
          with Response \<open>api_key = Some key\<close> False assms show ?thesis
            by (auto simp: fetch_with_key request_failed_def Let_def)
        next
          case ok: False
          with Response Some \<open>api_key = Some key\<close> False assms
          have s: "success_snapshot data = Inr snap"
            by (auto simp: fetch_with_key Let_def)
          then obtain d where "data = JObj d" using success_snapshot_not_dict by blast
          with s Response Some \<open>api_key = Some key\<close> show ?thesis by auto
        qed
      qed
    qed
  qed
qed

lemma fetch_transport_failure:
  assumes "key \<noteq> []" and "transport_failure (net evs (request_url key movie_id))"
  shows "fst (fetch_movie_details net (Some key) movie_id evs) = Inr network_failure_snapshot"
  using assms
  by (cases "net evs (request_url key movie_id)")
     (auto simp: fetch_with_key request_failed_def Let_def split: if_splits)



section \<open>The fields of a returned dictionary\<close>

lemma fetch_success:
  assumes "key \<noteq> []"
      and "net evs (request_url key movie_id) = Response status (Some data)"
      and "\<not> (400 \<le> status \<and> status < 600)"
  shows "fst (fetch_movie_details net (Some key) movie_id evs) = success_snapshot data"
  using assms by (auto simp: fetch_with_key Let_def)

text \<open>
  C7 as stated fails: nothing clamps the rating. On a response with status 200 whose body
  has \<^verbatim>\<open>vote_average\<close> 11, the returned dictionary has the rating 11, which is not
  between 0 and 10.
\<close>

theorem fetch_movie_details_rating_unbounded:
  "fst (fetch_movie_details (net_ok (JObj [(''vote_average'', JInt 11)])) (Some ''k'') 42 []) =
     Inr [(''poster_path'', JStr ''https://via.placeholder.com/500x750?text=No+Image+Available''),
          (''overview'', JStr ''No overview available''),
          (''release_date'', JStr ''Release date unknown''),
          (''rating'', JInt 11),
          (''runtime'', JStr ''N/A'')] \<and>
   in_0_10 (JInt 11) = False"
  by code_simp

lemma round_half_even_nearest:
  "\<bar>of_int (round_half_even y) - y\<bar> \<le> 1 / 2 \<and>
   (\<bar>of_int (round_half_even y) - y\<bar> = 1 / 2 \<longrightarrow> even (round_half_even y))"
proof -
  have b: "of_int \<lfloor>y\<rfloor> \<le> y" "y < of_int \<lfloor>y\<rfloor> + 1" by linarith+
  consider "y - of_int \<lfloor>y\<rfloor> < 1 / 2" | "1 / 2 < y - of_int \<lfloor>y\<rfloor>" | "y - of_int \<lfloor>y\<rfloor> = 1 / 2"
    by linarith
  then show ?thesis
  proof cases
    case 1
    then have "round_half_even y = \<lfloor>y\<rfloor>" by (simp add: round_half_even_def Let_def)
    with 1 b show ?thesis by auto
  next
    case 2
    then have "round_half_even y = \<lfloor>y\<rfloor> + 1" by (simp add: round_half_even_def Let_def)
    with 2 b show ?thesis by auto
  next
    case 3
    then have r: "round_half_even y = (if even \<lfloor>y\<rfloor> then \<lfloor>y\<rfloor> else \<lfloor>y\<rfloor> + 1)"
      by (simp add: round_half_even_def Let_def)
    then have "even (round_half_even y)" by simp
    moreover have "\<bar>of_int (round_half_even y) - y\<bar> \<le> 1 / 2"
      by (rule round_half_even_near)
    ultimately show ?thesis by simp
  qed
qed

lemma py_round1_float:
  assumes "py_round1 (JFloat (Finite x)) = Inr r"
  shows "\<exists>k. r = JFloat (Finite (of_int k / 10)) \<and> \<bar>of_int k - x * 10\<bar> \<le> 1 / 2 \<and>
             (\<bar>of_int k - x * 10\<bar> = 1 / 2 \<longrightarrow> even k)"
proof -
  from assms have "r = JFloat (Finite (of_int (round_half_even (x * 10)) / 10))" by auto
  with round_half_even_nearest [of "x * 10"] show ?thesis by blast
qed

text \<open>
  C7, as amended. For every movie id and every outcome on which
  \<^verbatim>\<open>fetch_movie_details\<close> returns a dictionary, the dictionary has a rating, which is:
  0.0 when no credential is configured and on a transport failure; and on a response
  that is mapped, 0 when \<^verbatim>\<open>vote_average\<close> is missing, the integer itself when it is
  an integer (1 or 0 for a boolean), the float itself when it is infinite or not a number,
  and for a finite float \<open>x\<close> the multiple \<open>k / 10\<close> of one tenth nearest to \<open>x\<close>, with
  \<open>k\<close> even when \<open>x\<close> lies halfway between two of them. Nothing clamps it: the
  rating is a number between 0 and 10 with at most one decimal place whenever the
  \<^verbatim>\<open>vote_average\<close> of the response, if it has one, is a number between 0 and 10.
\<close>

theorem fetch_movie_details_rating:
  assumes "fst (fetch_movie_details net api_key movie_id evs) = Inr snap"
  shows "\<exists>r. map_of snap ''rating'' = Some r \<and>
     (api_key = None \<or> api_key = Some [] \<longrightarrow> r = JFloat (Finite 0)) \<and>
     (\<forall>key. api_key = Some key \<and> key \<noteq> [] \<longrightarrow>
        (transport_failure (net evs (request_url key movie_id)) \<longrightarrow> r = JFloat (Finite 0)) \<and>
        (\<forall>status d.
           net evs (request_url key movie_id) = Response status (Some (JObj d)) \<and>
           \<not> (400 \<le> status \<and> status < 600) \<longrightarrow>
             (map_of d ''vote_average'' = None \<longrightarrow> r = JInt 0) \<and>
             (\<forall>n. map_of d ''vote_average'' = Some (JInt n) \<longrightarrow> r = JInt n) \<and>
             (\<forall>b. map_of d ''vote_average'' = Some (JBool b) \<longrightarrow> r = JInt (if b then 1 else 0)) \<and>
             (\<forall>x. map_of d ''vote_average'' = Some (JFloat (Finite x)) \<longrightarrow>
                (\<exists>k. r = JFloat (Finite (of_int k / 10)) \<and> \<bar>of_int k - x * 10\<bar> \<le> 1 / 2 \<and>
                     (\<bar>of_int k - x * 10\<bar> = 1 / 2 \<longrightarrow> even k))) \<and>
             (\<forall>f. map_of d ''vote_average'' = Some (JFloat f) \<and> (\<forall>x. f \<noteq> Finite x) \<longrightarrow>
                r = JFloat f))) \<and>
     ((\<forall>key status d v. api_key = Some key \<longrightarrow>
          net evs (request_url key movie_id) = Response status (Some (JObj d)) \<longrightarrow>
          map_of d ''vote_average'' = Some v \<longrightarrow> in_0_10 v) \<longrightarrow>
        in_0_10 r \<and> one_decimal r)"
proof -
  have ex: "\<exists>r. map_of snap ''rating'' = Some r"
    using fetch_result_cases [OF assms] success_snapshot_rating
    by (auto simp: no_api_key_snapshot_def network_failure_snapshot_def)
  then obtain r where r: "map_of snap ''rating'' = Some r" by blast
  have nokey: "r = JFloat (Finite 0)" if "api_key = None \<or> api_key = Some []"
    using that assms r by (auto simp: fetch_no_key no_api_key_snapshot_def)
  have fail: "r = JFloat (Finite 0)"
    if "api_key = Some key" "key \<noteq> []" "transport_failure (net evs (request_url key movie_id))"
    for key
    using fetch_transport_failure [of key net evs movie_id] that assms r
    by (auto simp: network_failure_snapshot_def)
  have succ: "py_round1 (dict_get d ''vote_average'' (JInt 0)) = Inr r"
    if "api_key = Some key" "key \<noteq> []"
       "net evs (request_url key movie_id) = Response status (Some (JObj d))"
       "\<not> (400 \<le> status \<and> status < 600)"
    for key status d
  proof -
    have "success_snapshot (JObj d) = Inr snap"
      using fetch_success [of key net evs movie_id status "JObj d"] that assms by simp
    from success_snapshot_rating [OF this] r show ?thesis by auto
  qed
  have m0: "r = JInt 0"
    if "py_round1 (dict_get d ''vote_average'' (JInt 0)) = Inr r" "map_of d ''vote_average'' = None"
    for d using that by (simp add: dict_get_def)
  have m1: "r = JInt n"
    if "py_round1 (dict_get d ''vote_average'' (JInt 0)) = Inr r" "map_of d ''vote_average'' = Some (JInt n)"
    for d n using that by (simp add: dict_get_def)
  have m2: "r = JInt (if b then 1 else 0)"
    if "py_round1 (dict_get d ''vote_average'' (JInt 0)) = Inr r" "map_of d ''vote_average'' = Some (JBool b)"
    for d b using that by (simp add: dict_get_def)
  have m3: "\<exists>k. r = JFloat (Finite (of_int k / 10)) \<and> \<bar>of_int k - x * 10\<bar> \<le> 1 / 2 \<and>
                     (\<bar>of_int k - x * 10\<bar> = 1 / 2 \<longrightarrow> even k)"
    if "py_round1 (dict_get d ''vote_average'' (JInt 0)) = Inr r"
       "map_of d ''vote_average'' = Some (JFloat (Finite x))"
    for d x using that py_round1_float [of x r] by (simp add: dict_get_def)
  have m4: "r = JFloat f"
    if "py_round1 (dict_get d ''vote_average'' (JInt 0)) = Inr r"
       "map_of d ''vote_average'' = Some (JFloat f)" "\<forall>x. f \<noteq> Finite x"
    for d f using that by (cases f) (auto simp: dict_get_def)
  have range: "in_0_10 r \<and> one_decimal r"
    if h: "\<forall>key status d v. api_key = Some key \<longrightarrow>
          net evs (request_url key movie_id) = Response status (Some (JObj d)) \<longrightarrow>
          map_of d ''vote_average'' = Some v \<longrightarrow> in_0_10 v"
  proof -
    from fetch_result_cases [OF assms]
    consider "snap = no_api_key_snapshot" | "snap = network_failure_snapshot"
      | key status d where "api_key = Some key"
          "net evs (request_url key movie_id) = Response status (Some (JObj d))"
          "success_snapshot (JObj d) = Inr snap"
      by blast
    then show ?thesis
    proof cases
      case 1
      with r show ?thesis by (auto simp: no_api_key_snapshot_def)
    next
      case 2
      with r show ?thesis by (auto simp: network_failure_snapshot_def)
    next
      case 3
      from success_snapshot_rating [OF 3(3)] r
      have p: "py_round1 (dict_get d ''vote_average'' (JInt 0)) = Inr r" by auto
      have "in_0_10 (dict_get d ''vote_average'' (JInt 0))"
      proof (cases "map_of d ''vote_average''")
        case None
        then show ?thesis by (simp add: dict_get_def)
      next
        case (Some v)
        with h 3(1,2) show ?thesis by (simp add: dict_get_def)
      qed
      from py_round1_in_0_10 [OF this] p show ?thesis by auto
    qed
  qed
  have B: "(transport_failure (net evs (request_url key movie_id)) \<longrightarrow> r = JFloat (Finite 0)) \<and>
        (\<forall>status d.
           net evs (request_url key movie_id) = Response status (Some (JObj d)) \<and>
           \<not> (400 \<le> status \<and> status < 600) \<longrightarrow>
             (map_of d ''vote_average'' = None \<longrightarrow> r = JInt 0) \<and>
             (\<forall>n. map_of d ''vote_average'' = Some (JInt n) \<longrightarrow> r = JInt n) \<and>
             (\<forall>b. map_of d ''vote_average'' = Some (JBool b) \<longrightarrow> r = JInt (if b then 1 else 0)) \<and>
             (\<forall>x. map_of d ''vote_average'' = Some (JFloat (Finite x)) \<longrightarrow>
                (\<exists>k. r = JFloat (Finite (of_int k / 10)) \<and> \<bar>of_int k - x * 10\<bar> \<le> 1 / 2 \<and>
                     (\<bar>of_int k - x * 10\<bar> = 1 / 2 \<longrightarrow> even k))) \<and>
             (\<forall>f. map_of d ''vote_average'' = Some (JFloat f) \<and> (\<forall>x. f \<noteq> Finite x) \<longrightarrow>
                r = JFloat f))"
    if k: "api_key = Some key \<and> key \<noteq> []" for key
  proof -
    have t: "transport_failure (net evs (request_url key movie_id)) \<longrightarrow> r = JFloat (Finite 0)"
      using fail [of key] k by simp
    have s: "(map_of d ''vote_average'' = None \<longrightarrow> r = JInt 0) \<and>
             (\<forall>n. map_of d ''vote_average'' = Some (JInt n) \<longrightarrow> r = JInt n) \<and>
             (\<forall>b. map_of d ''vote_average'' = Some (JBool b) \<longrightarrow> r = JInt (if b then 1 else 0)) \<and>
             (\<forall>x. map_of d ''vote_average'' = Some (JFloat (Finite x)) \<longrightarrow>
                (\<exists>k. r = JFloat (Finite (of_int k / 10)) \<and> \<bar>of_int k - x * 10\<bar> \<le> 1 / 2 \<and>
                     (\<bar>of_int k - x * 10\<bar> = 1 / 2 \<longrightarrow> even k))) \<and>
             (\<forall>f. map_of d ''vote_average'' = Some (JFloat f) \<and> (\<forall>x. f \<noteq> Finite x) \<longrightarrow>
                r = JFloat f)"
      if n: "net evs (request_url key movie_id) = Response status (Some (JObj d)) \<and>
             \<not> (400 \<le> status \<and> status < 600)" for status d
    proof -
      have p: "py_round1 (dict_get d ''vote_average'' (JInt 0)) = Inr r"
        using succ [of key status d] k n by simp
      show ?thesis
      proof (intro conjI allI impI)
        show "\<exists>k. r = JFloat (Finite (of_int k / 10)) \<and> \<bar>of_int k - x * 10\<bar> \<le> 1 / 2 \<and>
                     (\<bar>of_int k - x * 10\<bar> = 1 / 2 \<longrightarrow> even k)"
          if "map_of d ''vote_average'' = Some (JFloat (Finite x))" for x
          using m3 [OF p that] .
        show "r = JFloat f"
          if "map_of d ''vote_average'' = Some (JFloat f) \<and> (\<forall>x. f \<noteq> Finite x)" for f
          using m4 [OF p, of f] that by simp
      qed (use m0 [OF p] m1 [OF p] m2 [OF p] in simp_all)
    qed
    show ?thesis
    proof (rule conjI)
      show "transport_failure (net evs (request_url key movie_id)) \<longrightarrow> r = JFloat (Finite 0)"
        by (rule t)
    next
      show "\<forall>status d.
           net evs (request_url key movie_id) = Response status (Some (JObj d)) \<and>
           \<not> (400 \<le> status \<and> status < 600) \<longrightarrow>
             (map_of d ''vote_average'' = None \<longrightarrow> r = JInt 0) \<and>
             (\<forall>n. map_of d ''vote_average'' = Some (JInt n) \<longrightarrow> r = JInt n) \<and>
             (\<forall>b. map_of d ''vote_average'' = Some (JBool b) \<longrightarrow> r = JInt (if b then 1 else 0)) \<and>
             (\<forall>x. map_of d ''vote_average'' = Some (JFloat (Finite x)) \<longrightarrow>
                (\<exists>k. r = JFloat (Finite (of_int k / 10)) \<and> \<bar>of_int k - x * 10\<bar> \<le> 1 / 2 \<and>
                     (\<bar>of_int k - x * 10\<bar> = 1 / 2 \<longrightarrow> even k))) \<and>
             (\<forall>f. map_of d ''vote_average'' = Some (JFloat f) \<and> (\<forall>x. f \<noteq> Finite x) \<longrightarrow>
                r = JFloat f)"
        by (intro allI, rule impI, erule s)
    qed
  qed
  have A: "api_key = None \<or> api_key = Some [] \<longrightarrow> r = JFloat (Finite 0)"
    using nokey by simp
  have C: "(\<forall>key status d v. api_key = Some key \<longrightarrow>
          net evs (request_url key movie_id) = Response status (Some (JObj d)) \<longrightarrow>
          map_of d ''vote_average'' = Some v \<longrightarrow> in_0_10 v) \<longrightarrow>
        in_0_10 r \<and> one_decimal r"
    using range by simp
  show ?thesis
  proof (rule exI [of _ r], intro conjI)
    show "map_of snap ''rating'' = Some r" by (fact r)
    show "api_key = None \<or> api_key = Some [] \<longrightarrow> r = JFloat (Finite 0)" by (fact A)
    show "(\<forall>key status d v. api_key = Some key \<longrightarrow>
          net evs (request_url key movie_id) = Response status (Some (JObj d)) \<longrightarrow>
          map_of d ''vote_average'' = Some v \<longrightarrow> in_0_10 v) \<longrightarrow>
        in_0_10 r \<and> one_decimal r" by (fact C)
  qed (intro allI, rule impI, erule B)
qed

theorem fetch_movie_details_rating_witness:
  "fst (fetch_movie_details (net_ok (JObj [(''vote_average'', JFloat (Finite (825 / 100)))]))
          (Some ''k'') 42 []) =
     Inr [(''poster_path'', JStr ''https://via.placeholder.com/500x750?text=No+Image+Available''),
          (''overview'', JStr ''No overview available''),
          (''release_date'', JStr ''Release date unknown''),
          (''rating'', JFloat (Finite (82 / 10))),
          (''runtime'', JStr ''N/A'')] \<and>
   in_0_10 (JFloat (Finite (825 / 100))) \<and>
   (\<exists>k. JFloat (Finite (82 / 10)) = JFloat (Finite (of_int k / 10)) \<and>
        \<bar>of_int k - 825 / 100 * 10\<bar> \<le> (1 / 2 :: rat) \<and>
        (\<bar>of_int k - 825 / 100 * 10\<bar> = (1 / 2 :: rat) \<longrightarrow> even k)) \<and>
   in_0_10 (JFloat (Finite (82 / 10))) \<and> one_decimal (JFloat (Finite (82 / 10)))"
proof -
  let ?d = "[(''vote_average'', JFloat (Finite (825 / 100)))]"
  let ?net = "net_ok (JObj ?d)"
  let ?snap = "[(''poster_path'', JStr ''https://via.placeholder.com/500x750?text=No+Image+Available''),
          (''overview'', JStr ''No overview available''),
          (''release_date'', JStr ''Release date unknown''),
          (''rating'', JFloat (Finite (82 / 10))),
          (''runtime'', JStr ''N/A'')]"
  have f: "fst (fetch_movie_details ?net (Some ''k'') 42 []) = Inr ?snap"
    by code_simp
  have i: "in_0_10 (JFloat (Finite (825 / 100)))" by simp
  have n: "?net [] (request_url ''k'' 42) = Response 200 (Some (JObj ?d)) \<and>
           \<not> (400 \<le> (200::nat) \<and> (200::nat) < 600)"
    by (simp add: net_ok_def)
  have h: "\<forall>key status d v. Some ''k'' = Some key \<longrightarrow>
          ?net [] (request_url key 42) = Response status (Some (JObj d)) \<longrightarrow>
          map_of d ''vote_average'' = Some v \<longrightarrow> in_0_10 v"
    by (auto simp: net_ok_def)
  from fetch_movie_details_rating [OF f]
  obtain r where r: "map_of ?snap ''rating'' = Some r"
    and s: "\<forall>key. Some ''k'' = Some key \<and> key \<noteq> [] \<longrightarrow>
        (transport_failure (?net [] (request_url key 42)) \<longrightarrow> r = JFloat (Finite 0)) \<and>
        (\<forall>status d.
           ?net [] (request_url key 42) = Response status (Some (JObj d)) \<and>
           \<not> (400 \<le> status \<and> status < 600) \<longrightarrow>
             (map_of d ''vote_average'' = None \<longrightarrow> r = JInt 0) \<and>
             (\<forall>n. map_of d ''vote_average'' = Some (JInt n) \<longrightarrow> r = JInt n) \<and>
             (\<forall>b. map_of d ''vote_average'' = Some (JBool b) \<longrightarrow> r = JInt (if b then 1 else 0)) \<and>
             (\<forall>x. map_of d ''vote_average'' = Some (JFloat (Finite x)) \<longrightarrow>
                (\<exists>k. r = JFloat (Finite (of_int k / 10)) \<and> \<bar>of_int k - x * 10\<bar> \<le> 1 / 2 \<and>
                     (\<bar>of_int k - x * 10\<bar> = 1 / 2 \<longrightarrow> even k))) \<and>
             (\<forall>f. map_of d ''vote_average'' = Some (JFloat f) \<and> (\<forall>x. f \<noteq> Finite x) \<longrightarrow>
                r = JFloat f))"
    and c: "(\<forall>key status d v. Some ''k'' = Some key \<longrightarrow>
          ?net [] (request_url key 42) = Response status (Some (JObj d)) \<longrightarrow>
          map_of d ''vote_average'' = Some v \<longrightarrow> in_0_10 v) \<longrightarrow>
        in_0_10 r \<and> one_decimal r"
    by (elim exE conjE)
  from r have r82: "r = JFloat (Finite (82 / 10))" by simp
  have k: "Some ''k'' = Some ''k'' \<and> ''k'' \<noteq> []" by simp
  from s [rule_format, OF k, THEN conjunct2, rule_format, OF n]
  have "\<forall>x. map_of ?d ''vote_average'' = Some (JFloat (Finite x)) \<longrightarrow>
                (\<exists>k. r = JFloat (Finite (of_int k / 10)) \<and> \<bar>of_int k - x * 10\<bar> \<le> 1 / 2 \<and>
                     (\<bar>of_int k - x * 10\<bar> = 1 / 2 \<longrightarrow> even k))"
    by (elim conjE)
  note x = this
  have m: "map_of ?d ''vote_average'' = Some (JFloat (Finite (825 / 100)))" by simp
  from x [rule_format, OF m]
  have e: "\<exists>k. r = JFloat (Finite (of_int k / 10)) \<and>
        \<bar>of_int k - 825 / 100 * 10\<bar> \<le> (1 / 2 :: rat) \<and>
        (\<bar>of_int k - 825 / 100 * 10\<bar> = (1 / 2 :: rat) \<longrightarrow> even k)" .
  from c h have io: "in_0_10 r \<and> one_decimal r" by (rule mp)
  note e' = e [unfolded r82]
  note io' = io [unfolded r82]
  show ?thesis
    by (intro conjI) (rule f, rule i, rule e', rule io' [THEN conjunct1], rule io' [THEN conjunct2])
qed

text \<open>
  C8 as stated fails, whichever way "absent" is read. On a response with status 200 and
  the body \<^verbatim>\<open>{"poster_path": null, "overview": null}\<close> the poster is the placeholder
  and the overview is \<^verbatim>\<open>None\<close>. If a key that is present with the value
  \<^verbatim>\<open>null\<close> counts as present, the poster should have been prefixed with the image
  base; if it counts as absent, the overview should have been "No overview available".
\<close>

theorem fetch_movie_details_mapping_counterexample:
  "fst (fetch_movie_details
          (net_ok (JObj [(''poster_path'', JNull), (''overview'', JNull)])) (Some ''k'') 42 []) =
     Inr [(''poster_path'', JStr ''https://via.placeholder.com/500x750?text=No+Image+Available''),
          (''overview'', JNull),
          (''release_date'', JStr ''Release date unknown''),
          (''rating'', JInt 0),
          (''runtime'', JStr ''N/A'')]"
  by code_simp

lemma success_snapshot_value:
  assumes "poster_url (dict_get d ''poster_path'' JNull) = Inr url"
      and "py_round1 (dict_get d ''vote_average'' (JInt 0)) = Inr rating"
  shows "success_snapshot (JObj d) =
     Inr [(''poster_path'', JStr url),
          (''overview'', dict_get d ''overview'' (JStr ''No overview available'')),
          (''release_date'', dict_get d ''release_date'' (JStr ''Release date unknown'')),
          (''rating'', rating),
          (''runtime'', dict_get d ''runtime'' (JStr ''N/A''))]"
  using assms by (simp add: success_snapshot_def)

lemma well_typed_body_parts:
  assumes "well_typed_body (JObj d)"
  shows "\<exists>url rating. poster_url (dict_get d ''poster_path'' JNull) = Inr url \<and>
           py_round1 (dict_get d ''vote_average'' (JInt 0)) = Inr rating"
proof -
  have p: "\<exists>url. poster_url (dict_get d ''poster_path'' JNull) = Inr url"
    using assms
    by (cases "dict_get d ''poster_path'' JNull")
       (auto simp: well_typed_body_def poster_url_def split: if_splits)
  have r: "\<exists>rating. py_round1 (dict_get d ''vote_average'' (JInt 0)) = Inr rating"
    using assms
    by (cases "dict_get d ''vote_average'' (JInt 0)") (auto simp: well_typed_body_def)
  from p r show ?thesis by blast
qed

text \<open>
  C8, as amended. For every response whose status code is not between 400 and 599 and
  whose body is a dictionary on which the mapping raises nothing (\<^verbatim>\<open>poster_path\<close>
  missing, falsy or a string; \<^verbatim>\<open>vote_average\<close> missing or a number),
  \<^verbatim>\<open>fetch_movie_details\<close> returns a dictionary with the five keys in which: a missing
  poster path and a poster path that is present with a falsy value (\<^verbatim>\<open>null\<close>, the
  empty string) give the placeholder URL, and a non-empty string is prefixed with the
  image base; a missing overview gives "No overview available", a missing release date
  "Release date unknown" and a missing runtime "N/A", while a value that is present, of
  whatever kind, passes through; a missing rating gives 0, an integer rating is unchanged
  (a boolean gives 1 or 0), an infinite or not-a-number rating is unchanged, and a finite
  float rating \<open>x\<close> is replaced by the multiple \<open>k / 10\<close> of one tenth nearest to it,
  with \<open>k\<close> even on a tie (7.666 gives 7.7).
\<close>

theorem fetch_movie_details_mapping:
  assumes "key \<noteq> []"
      and "net evs (request_url key movie_id) = Response status (Some (JObj d))"
      and "\<not> (400 \<le> status \<and> status < 600)"
      and "well_typed_body (JObj d)"
  shows "\<exists>snap. fst (fetch_movie_details net (Some key) movie_id evs) = Inr snap \<and>
     map fst snap = [''poster_path'', ''overview'', ''release_date'', ''rating'', ''runtime''] \<and>
     (map_of d ''poster_path'' = None \<longrightarrow>
        map_of snap ''poster_path'' =
          Some (JStr ''https://via.placeholder.com/500x750?text=No+Image+Available'')) \<and>
     (\<forall>v. map_of d ''poster_path'' = Some v \<and> \<not> truthy v \<longrightarrow>
        map_of snap ''poster_path'' =
          Some (JStr ''https://via.placeholder.com/500x750?text=No+Image+Available'')) \<and>
     (\<forall>s. map_of d ''poster_path'' = Some (JStr s) \<and> s \<noteq> [] \<longrightarrow>
        map_of snap ''poster_path'' = Some (JStr (''https://image.tmdb.org/t/p/w500/'' @ s))) \<and>
     (map_of d ''overview'' = None \<longrightarrow>
        map_of snap ''overview'' = Some (JStr ''No overview available'')) \<and>
     (\<forall>v. map_of d ''overview'' = Some v \<longrightarrow> map_of snap ''overview'' = Some v) \<and>
     (map_of d ''release_date'' = None \<longrightarrow>
        map_of snap ''release_date'' = Some (JStr ''Release date unknown'')) \<and>
     (\<forall>v. map_of d ''release_date'' = Some v \<longrightarrow> map_of snap ''release_date'' = Some v) \<and>
     (map_of d ''vote_average'' = None \<longrightarrow> map_of snap ''rating'' = Some (JInt 0)) \<and>
     (\<forall>n. map_of d ''vote_average'' = Some (JInt n) \<longrightarrow> map_of snap ''rating'' = Some (JInt n)) \<and>
     (\<forall>b. map_of d ''vote_average'' = Some (JBool b) \<longrightarrow>
        map_of snap ''rating'' = Some (JInt (if b then 1 else 0))) \<and>
     (\<forall>x. map_of d ''vote_average'' = Some (JFloat (Finite x)) \<longrightarrow>
        (\<exists>k. map_of snap ''rating'' = Some (JFloat (Finite (of_int k / 10))) \<and>
             \<bar>of_int k - x * 10\<bar> \<le> 1 / 2 \<and> (\<bar>of_int k - x * 10\<bar> = 1 / 2 \<longrightarrow> even k))) \<and>
     (\<forall>f. map_of d ''vote_average'' = Some (JFloat f) \<and> (\<forall>x. f \<noteq> Finite x) \<longrightarrow>
        map_of snap ''rating'' = Some (JFloat f)) \<and>
     (map_of d ''runtime'' = None \<longrightarrow> map_of snap ''runtime'' = Some (JStr ''N/A'')) \<and>
     (\<forall>v. map_of d ''runtime'' = Some v \<longrightarrow> map_of snap ''runtime'' = Some v)"
proof -
  from well_typed_body_parts [OF assms(4)]
  obtain url rating where u: "poster_url (dict_get d ''poster_path'' JNull) = Inr url"
    and r: "py_round1 (dict_get d ''vote_average'' (JInt 0)) = Inr rating" by blast
  let ?snap = "[(''poster_path'', JStr url),
          (''overview'', dict_get d ''overview'' (JStr ''No overview available'')),
          (''release_date'', dict_get d ''release_date'' (JStr ''Release date unknown'')),
          (''rating'', rating),
          (''runtime'', dict_get d ''runtime'' (JStr ''N/A''))]"
  have f: "fst (fetch_movie_details net (Some key) movie_id evs) = Inr ?snap"
    using fetch_success [of key net evs movie_id status "JObj d"] assms(1,2,3)
      success_snapshot_value [OF u r] by simp
  have p1: "map_of d ''poster_path'' = None \<longrightarrow>
      url = ''https://via.placeholder.com/500x750?text=No+Image+Available''"
    using u by (auto simp: dict_get_def poster_url_def)
  have p2: "\<forall>v. map_of d ''poster_path'' = Some v \<and> \<not> truthy v \<longrightarrow>
      url = ''https://via.placeholder.com/500x750?text=No+Image+Available''"
    using u by (auto simp: dict_get_def poster_url_def)
  have p3: "\<forall>s. map_of d ''poster_path'' = Some (JStr s) \<and> s \<noteq> [] \<longrightarrow>
      url = ''https://image.tmdb.org/t/p/w500/'' @ s"
    using u by (auto simp: dict_get_def poster_url_def)
  have r1: "map_of d ''vote_average'' = None \<longrightarrow> rating = JInt 0"
    using r by (auto simp: dict_get_def)
  have r2: "\<forall>n. map_of d ''vote_average'' = Some (JInt n) \<longrightarrow> rating = JInt n"
    using r by (auto simp: dict_get_def)
  have r3: "\<forall>b. map_of d ''vote_average'' = Some (JBool b) \<longrightarrow> rating = JInt (if b then 1 else 0)"
    using r by (auto simp: dict_get_def)
  have r4: "\<forall>x. map_of d ''vote_average'' = Some (JFloat (Finite x)) \<longrightarrow>
      (\<exists>k. rating = JFloat (Finite (of_int k / 10)) \<and>
           \<bar>of_int k - x * 10\<bar> \<le> 1 / 2 \<and> (\<bar>of_int k - x * 10\<bar> = 1 / 2 \<longrightarrow> even k))"
  proof (intro allI impI)
    fix x assume "map_of d ''vote_average'' = Some (JFloat (Finite x))"
    with r have "py_round1 (JFloat (Finite x)) = Inr rating" by (simp add: dict_get_def)
    then show "\<exists>k. rating = JFloat (Finite (of_int k / 10)) \<and>
           \<bar>of_int k - x * 10\<bar> \<le> 1 / 2 \<and> (\<bar>of_int k - x * 10\<bar> = 1 / 2 \<longrightarrow> even k)"
      by (rule py_round1_float)
  qed
  have r5: "\<forall>f. map_of d ''vote_average'' = Some (JFloat f) \<and> (\<forall>x. f \<noteq> Finite x) \<longrightarrow>
      rating = JFloat f"
  proof (intro allI impI)
    fix f assume "map_of d ''vote_average'' = Some (JFloat f) \<and> (\<forall>x. f \<noteq> Finite x)"
    with r show "rating = JFloat f" by (cases f) (auto simp: dict_get_def)
  qed
  show ?thesis
  proof (rule exI [of _ ?snap], intro conjI)
    show "fst (fetch_movie_details net (Some key) movie_id evs) = Inr ?snap" by (fact f)
    show "\<forall>x. map_of d ''vote_average'' = Some (JFloat (Finite x)) \<longrightarrow>
        (\<exists>k. map_of ?snap ''rating'' = Some (JFloat (Finite (of_int k / 10))) \<and>
             \<bar>of_int k - x * 10\<bar> \<le> 1 / 2 \<and> (\<bar>of_int k - x * 10\<bar> = 1 / 2 \<longrightarrow> even k))"
      using r4 by simp
  qed (use p1 p2 p3 r1 r2 r3 r5 in \<open>simp_all add: dict_get_def\<close>)
qed

theorem fetch_movie_details_mapping_witness:
  "well_typed_body (JObj [(''poster_path'', JNull),
                          (''vote_average'', JFloat (Finite (7666 / 1000)))]) \<and>
   (\<exists>snap.
      fst (fetch_movie_details
             (net_ok (JObj [(''poster_path'', JNull),
                            (''vote_average'', JFloat (Finite (7666 / 1000)))]))
             (Some ''k'') 42 []) = Inr snap \<and>
      map_of snap ''poster_path'' =
        Some (JStr ''https://via.placeholder.com/500x750?text=No+Image+Available'') \<and>
      map_of snap ''overview'' = Some (JStr ''No overview available'') \<and>
      map_of snap ''release_date'' = Some (JStr ''Release date unknown'') \<and>
      map_of snap ''runtime'' = Some (JStr ''N/A'') \<and>
      map_of snap ''rating'' = Some (JFloat (Finite (77 / 10))))"
proof -
  let ?d = "[(''poster_path'', JNull), (''vote_average'', JFloat (Finite (7666 / 1000)))]"
  have k: "''k'' \<noteq> []" by simp
  have n: "net_ok (JObj ?d) [] (request_url ''k'' 42) = Response 200 (Some (JObj ?d))"
    by (simp add: net_ok_def)
  have s: "\<not> (400 \<le> (200::nat) \<and> (200::nat) < 600)" by simp
  have w: "well_typed_body (JObj ?d)"
    by (simp add: well_typed_body_def dict_get_def)
  from fetch_movie_details_mapping [of "''k''" "net_ok (JObj ?d)" "[]" 42 200 ?d, OF k n s w]
  obtain snap where
    a: "fst (fetch_movie_details (net_ok (JObj ?d)) (Some ''k'') 42 []) = Inr snap"
    and "map fst snap = [''poster_path'', ''overview'', ''release_date'', ''rating'', ''runtime'']"
    and "map_of ?d ''poster_path'' = None \<longrightarrow>
        map_of snap ''poster_path'' =
          Some (JStr ''https://via.placeholder.com/500x750?text=No+Image+Available'')"
    and c2: "\<forall>v. map_of ?d ''poster_path'' = Some v \<and> \<not> truthy v \<longrightarrow>
        map_of snap ''poster_path'' =
          Some (JStr ''https://via.placeholder.com/500x750?text=No+Image+Available'')"
    and "\<forall>s. map_of ?d ''poster_path'' = Some (JStr s) \<and> s \<noteq> [] \<longrightarrow>
        map_of snap ''poster_path'' = Some (JStr (''https://image.tmdb.org/t/p/w500/'' @ s))"
    and c4: "map_of ?d ''overview'' = None \<longrightarrow>
        map_of snap ''overview'' = Some (JStr ''No overview available'')"
    and "\<forall>v. map_of ?d ''overview'' = Some v \<longrightarrow> map_of snap ''overview'' = Some v"
    and c6: "map_of ?d ''release_date'' = None \<longrightarrow>
        map_of snap ''release_date'' = Some (JStr ''Release date unknown'')"
    and "\<forall>v. map_of ?d ''release_date'' = Some v \<longrightarrow> map_of snap ''release_date'' = Some v"
    and "map_of ?d ''vote_average'' = None \<longrightarrow> map_of snap ''rating'' = Some (JInt 0)"
    and "\<forall>n. map_of ?d ''vote_average'' = Some (JInt n) \<longrightarrow> map_of snap ''rating'' = Some (JInt n)"
    and "\<forall>b. map_of ?d ''vote_average'' = Some (JBool b) \<longrightarrow>
        map_of snap ''rating'' = Some (JInt (if b then 1 else 0))"
    and c12: "\<forall>x. map_of ?d ''vote_average'' = Some (JFloat (Finite x)) \<longrightarrow>
        (\<exists>k. map_of snap ''rating'' = Some (JFloat (Finite (of_int k / 10))) \<and>
             \<bar>of_int k - x * 10\<bar> \<le> 1 / 2 \<and> (\<bar>of_int k - x * 10\<bar> = 1 / 2 \<longrightarrow> even k))"
    and "\<forall>f. map_of ?d ''vote_average'' = Some (JFloat f) \<and> (\<forall>x. f \<noteq> Finite x) \<longrightarrow>
        map_of snap ''rating'' = Some (JFloat f)"
    and c14: "map_of ?d ''runtime'' = None \<longrightarrow> map_of snap ''runtime'' = Some (JStr ''N/A'')"
    and "\<forall>v. map_of ?d ''runtime'' = Some v \<longrightarrow> map_of snap ''runtime'' = Some v"
    by (elim exE conjE)
  have b: "map_of snap ''poster_path'' =
        Some (JStr ''https://via.placeholder.com/500x750?text=No+Image+Available'')"
    by (rule c2 [rule_format, of JNull]) simp
  have c: "map_of snap ''overview'' = Some (JStr ''No overview available'')"
    by (rule c4 [rule_format]) simp
  have d: "map_of snap ''release_date'' = Some (JStr ''Release date unknown'')"
    by (rule c6 [rule_format]) simp
  have e: "map_of snap ''runtime'' = Some (JStr ''N/A'')"
    by (rule c14 [rule_format]) simp
  have "\<exists>k. map_of snap ''rating'' = Some (JFloat (Finite (of_int k / 10))) \<and>
        \<bar>of_int k - 7666 / 1000 * 10\<bar> \<le> (1 / 2 :: rat) \<and>
        (\<bar>of_int k - 7666 / 1000 * 10\<bar> = (1 / 2 :: rat) \<longrightarrow> even k)"
    by (rule c12 [rule_format]) simp
  then obtain j :: int where j: "map_of snap ''rating'' = Some (JFloat (Finite (of_int j / 10)))"
    and jb: "\<bar>of_int j - 7666 / 1000 * 10\<bar> \<le> (1 / 2 :: rat)" by blast
  from jb have "(76 :: rat) < of_int j" "of_int j < (78 :: rat)" by linarith+
  then have "76 < j" "j < 78" by simp_all
  then have "j = 77" by linarith
  with j have g: "map_of snap ''rating'' = Some (JFloat (Finite (77 / 10)))" by simp
  show ?thesis
    by (intro conjI exI [of _ snap]) (rule w, rule a, rule b, rule c, rule d, rule e, rule g)
qed



end
